theory Spec2Isabelle
  imports Main "HOL-Library.Word" "HOL-Library.Signed_Division"
begin

unbundle bit_operations_syntax

section \<open>BufferedProxy: a shallow embedding of Buffer.cpp\<close>

text \<open>
  The C++ class \<^verbatim>\<open>BufferedProxy\<close> (Buffer.h, Buffer.cpp) buffers byte-granular reads,
  writes and seeks in front of a block device, the abstract class \<^verbatim>\<open>BufferedObject\<close>.

  Conventions of the embedding:
  \<^item> \<^verbatim>\<open>int\<close> is modelled by \<open>int\<close>. Division and remainder are the truncating ones
    of C++ (\<open>sdiv\<close>, \<open>smod\<close>); a zero divisor is the error \<open>DivideByZero\<close>. A C++
    \<^verbatim>\<open>int\<close> has 32 bits, and the compiled code wraps around where a result leaves
    their range. \<^verbatim>\<open>_IsPowerOf2\<close> and \<^verbatim>\<open>Seek\<close>, which compute with an argument
    just as the caller passes it, have this wrap-around written out: \<open>int32\<close> is
    applied to the result of each of their additions, subtractions, multiplications and
    divisions. The other functions compute on \<open>int\<close> as it is; what is proved of them
    is either at arguments whose computations stay in the 32-bit range or does not
    depend on it.
  \<^item> \<^verbatim>\<open>unsigned\<close> is \<open>32 word\<close>; an address (\<^verbatim>\<open>unsigned long\<close>) is \<open>64 word\<close>
    and is cut to its low 32 bits where the source passes it to an \<^verbatim>\<open>unsigned\<close>
    parameter. An \<^verbatim>\<open>unsigned\<close> passed to an \<^verbatim>\<open>int\<close> parameter is read with \<open>sint\<close>.
  \<^item> The memory a pointer refers to is a byte list next to the pointer: \<open>buffer\<close> for
    \<^verbatim>\<open>m_paBuffer\<close>, \<open>region\<close> for the client's \<^verbatim>\<open>pDst\<close>/\<^verbatim>\<open>pSrc\<close>. A \<^verbatim>\<open>memcpy\<close>
    that leaves one of these lists is the error \<open>OutOfBounds\<close>.
  \<^item> The macros \<^verbatim>\<open>assert\<close> and \<^verbatim>\<open>assert_power_of_two\<close> come from Misc/assert.h, which
    is not part of the sources. They do not change control flow in the model (a build
    with assertions compiled out); the conditions they state are kept as predicates.
  \<^item> The device behind \<^verbatim>\<open>m_pBufferedObject\<close> is a parameter: a record of its three
    virtual functions over a device state of any type. Every call of one of them is
    appended to the ghost field \<open>calls\<close>.
\<close>

type_synonym byte = "8 word"
type_synonym uint = "32 word"
type_synonym addr = "64 word"

datatype error =
    ConstructorFailedException string
  | DivideByZero
  | OutOfBounds

subsection \<open>The 32-bit int\<close>

text \<open>
  \<open>is_int k\<close>: \<open>k\<close> is a value of a 32-bit \<^verbatim>\<open>int\<close>. \<open>int32 k\<close> is \<open>k\<close> wrapped around
  into that range (two's complement); it leaves the values of the range alone.
\<close>

definition is_int :: "int \<Rightarrow> bool" where
  "is_int k = (- 2147483648 \<le> k \<and> k \<le> 2147483647)"

definition int32 :: "int \<Rightarrow> int" where
  "int32 k = signed_take_bit 31 k"

subsection \<open>The helpers of the anonymous namespace\<close>

definition IsPowerOf2 :: "int \<Rightarrow> bool" where
  "IsPowerOf2 n = (n AND int32 (n - 1) = 0)"

definition IsMultipleOf :: "int \<Rightarrow> int \<Rightarrow> error + bool" where
  "IsMultipleOf n m = (if m = 0 then Inl DivideByZero else Inr (n smod m = 0))"

definition IsAligned :: "uint \<Rightarrow> uint \<Rightarrow> bool" where
  "IsAligned n align = (n AND align = 0)"

definition HighestMultiple :: "int \<Rightarrow> int \<Rightarrow> error + int" where
  "HighestMultiple n m = (if m = 0 then Inl DivideByZero else Inr (n - n smod m))"

definition HighestMultiplePowerOf2 :: "int \<Rightarrow> int \<Rightarrow> int" where
  "HighestMultiplePowerOf2 n align = n AND NOT align"

subsection \<open>Configuration flags (Buffer.h)\<close>

definition CF_READ_ONLY :: uint where "CF_READ_ONLY = 0x00000001"
definition CF_WRITE_ONLY :: uint where "CF_WRITE_ONLY = 0x00000002"
definition CF_NO_DIRECT_IO :: uint where "CF_NO_DIRECT_IO = 0x00000004"
definition CF_NO_FILLS :: uint where "CF_NO_FILLS = 0x00000008"
definition CF_RANDOM_ACCESS :: uint where "CF_RANDOM_ACCESS = 0x00000010"

subsection \<open>The buffered object and the proxy's state\<close>

text \<open>
  \<open>bo_Read d handle n\<close> returns the function's result, the bytes the device stored at
  \<^verbatim>\<open>pBuffer\<close>, and the new device state. \<open>bo_Write d handle bytes n\<close> is given the
  bytes found at \<^verbatim>\<open>pBuffer\<close>. Nothing is assumed about the results: a device may
  return any \<open>int\<close>.
\<close>

record 'd BufferedObject =
  bo_Read :: "'d \<Rightarrow> uint \<Rightarrow> int \<Rightarrow> int \<times> byte list \<times> 'd"
  bo_Write :: "'d \<Rightarrow> uint \<Rightarrow> byte list \<Rightarrow> int \<Rightarrow> int \<times> 'd"
  bo_Seek :: "'d \<Rightarrow> uint \<Rightarrow> int \<Rightarrow> int \<times> 'd"

datatype call =
    SeekCall int
  | ReadCall addr int
  | WriteCall addr int

record 'd BufferedProxy =
  m_Handle :: uint
  m_paBuffer :: addr
  buffer :: "byte list"
  m_BufferSize :: int
  m_BufferSizeInBlocks :: int
  m_pBufferedObject :: 'd
  m_BlockSize :: int
  m_SectorAlign :: uint
  m_BufferAlign :: uint
  m_Flags :: uint
  m_Point :: int
  m_BufferLoc :: int
  m_DataSize :: int
  m_IsDirty :: bool
  calls :: "call list"

text \<open>
  \<open>store m off bs\<close> overwrites \<open>m\<close> from index \<open>off\<close> with \<open>bs\<close>, never beyond the
  end of \<open>m\<close>: the length of \<open>m\<close> is kept.
\<close>

definition store :: "byte list \<Rightarrow> nat \<Rightarrow> byte list \<Rightarrow> byte list" where
  "store m off bs = take off m @ take (length m - off) bs @ drop (off + length bs) m"

text \<open>The three virtual calls, each logged. A device moves at most \<open>n\<close> blocks of memory.\<close>

definition obj_Seek :: "'d BufferedObject \<Rightarrow> 'd BufferedProxy \<Rightarrow> int \<Rightarrow> int \<times> 'd BufferedProxy" where
  "obj_Seek bo w location =
     (let (r, d) = bo_Seek bo (m_pBufferedObject w) (m_Handle w) location
      in (r, w\<lparr>m_pBufferedObject := d, calls := calls w @ [SeekCall location]\<rparr>))"

definition obj_Read :: "'d BufferedObject \<Rightarrow> 'd BufferedProxy \<Rightarrow> addr \<Rightarrow> int
    \<Rightarrow> int \<times> byte list \<times> 'd BufferedProxy" where
  "obj_Read bo w pBuffer n =
     (let (r, bytes, d) = bo_Read bo (m_pBufferedObject w) (m_Handle w) n
      in (r, take (nat (n * m_BlockSize w)) bytes,
          w\<lparr>m_pBufferedObject := d, calls := calls w @ [ReadCall pBuffer n]\<rparr>))"

definition obj_Write :: "'d BufferedObject \<Rightarrow> 'd BufferedProxy \<Rightarrow> addr \<Rightarrow> byte list \<Rightarrow> int
    \<Rightarrow> int \<times> 'd BufferedProxy" where
  "obj_Write bo w pBuffer bytes n =
     (let (r, d) = bo_Write bo (m_pBufferedObject w) (m_Handle w)
                     (take (nat (n * m_BlockSize w)) bytes) n
      in (r, w\<lparr>m_pBufferedObject := d, calls := calls w @ [WriteCall pBuffer n]\<rparr>))"

subsection \<open>Flush and Fill\<close>

text \<open>The condition of the \<^verbatim>\<open>assert\<close> in \<^verbatim>\<open>Flush\<close>.\<close>

definition Flush_assert :: "'d BufferedProxy \<Rightarrow> bool" where
  "Flush_assert w = IsAligned (word_of_int (m_BufferLoc w * m_BlockSize w)) (m_SectorAlign w)"

definition Flush :: "'d BufferedObject \<Rightarrow> 'd BufferedProxy \<Rightarrow> 'd BufferedProxy" where
  "Flush bo w =
     (if m_IsDirty w \<and> m_DataSize w > 0 then
        (let (seekValue, w1) = obj_Seek bo w (m_BufferLoc w) in
         if seekValue = m_BufferLoc w1 then
           (let blocksToFlush = m_DataSize w1;
                (blocksFlushed, w2) = obj_Write bo w1 (m_paBuffer w1) (buffer w1) blocksToFlush
            in if blocksFlushed = m_DataSize w2 then w2\<lparr>m_IsDirty := False\<rparr> else w2)
         else w1)
      else w)"

definition Fill :: "'d BufferedObject \<Rightarrow> 'd BufferedProxy \<Rightarrow> 'd BufferedProxy" where
  "Fill bo w =
     (let w3 =
        (if m_Flags w AND CF_NO_FILLS = 0 then
           (let (seekValue, w1) = obj_Seek bo w (m_BufferLoc w) in
            if seekValue = m_BufferLoc w1 then
              (let (r, bytes, w2) = obj_Read bo w1 (m_paBuffer w1) (m_BufferSizeInBlocks w1)
               in w2\<lparr>buffer := store (buffer w2) 0 bytes, m_DataSize := r\<rparr>)
            else w1)
         else w)
      in w3\<lparr>m_Point := 0\<rparr>)"

subsection \<open>Remaining-space queries and the copy primitives\<close>

definition RemainingReadAmount :: "'d BufferedProxy \<Rightarrow> int" where
  "RemainingReadAmount w = m_DataSize w * m_BlockSize w - m_Point w"

definition RemainingWriteSpace :: "'d BufferedProxy \<Rightarrow> int" where
  "RemainingWriteSpace w = m_BufferSizeInBlocks w * m_BlockSize w - m_Point w"

text \<open>
  A client pointer \<^verbatim>\<open>pDst\<close> or \<^verbatim>\<open>pSrc\<close>: the address the client passed (\<open>base\<close>), the
  bytes the pointer has been advanced by since (\<open>offset\<close>), and the client's memory
  from \<open>base\<close> on (\<open>region\<close>).
\<close>

record client_ptr =
  base :: addr
  offset :: int
  region :: "byte list"

definition address :: "client_ptr \<Rightarrow> addr" where
  "address p = base p + word_of_int (offset p)"

text \<open>The conditions of the \<^verbatim>\<open>assert\<close>s in \<^verbatim>\<open>CopyOut\<close> and \<^verbatim>\<open>CopyIn\<close>.\<close>

definition CopyOut_assert :: "'d BufferedProxy \<Rightarrow> int \<Rightarrow> bool" where
  "CopyOut_assert w n = (m_Point w + n \<le> m_DataSize w * m_BlockSize w)"

definition CopyIn_assert :: "'d BufferedProxy \<Rightarrow> int \<Rightarrow> bool" where
  "CopyIn_assert w n = (m_Point w + n \<le> m_BufferSize w)"

text \<open>\<open>memcpy_ok m i n\<close>: the \<open>n\<close> bytes from index \<open>i\<close> lie inside \<open>m\<close>.\<close>

definition memcpy_ok :: "byte list \<Rightarrow> int \<Rightarrow> int \<Rightarrow> bool" where
  "memcpy_ok m i n = (0 \<le> n \<and> 0 \<le> i \<and> i + n \<le> int (length m))"

definition CopyOut :: "'d BufferedProxy \<Rightarrow> client_ptr \<Rightarrow> int
    \<Rightarrow> error + ('d BufferedProxy \<times> client_ptr)" where
  "CopyOut w pDst n =
     (if memcpy_ok (buffer w) (m_Point w) n \<and> memcpy_ok (region pDst) (offset pDst) n then
        Inr (w\<lparr>m_Point := m_Point w + n\<rparr>,
             pDst\<lparr>region := store (region pDst) (nat (offset pDst))
                                (take (nat n) (drop (nat (m_Point w)) (buffer w))),
                  offset := offset pDst + n\<rparr>)
      else Inl OutOfBounds)"

definition CopyIn :: "'d BufferedProxy \<Rightarrow> client_ptr \<Rightarrow> int
    \<Rightarrow> error + ('d BufferedProxy \<times> client_ptr)" where
  "CopyIn w pSrc n =
     (if memcpy_ok (buffer w) (m_Point w) n \<and> memcpy_ok (region pSrc) (offset pSrc) n then
        (let w1 = w\<lparr>buffer := store (buffer w) (nat (m_Point w))
                                 (take (nat n) (drop (nat (offset pSrc)) (region pSrc))),
                    m_Point := m_Point w + n,
                    m_IsDirty := True\<rparr>;
             pSrc1 = pSrc\<lparr>offset := offset pSrc + n\<rparr>
         in if m_Point w1 > m_DataSize w1 * m_BlockSize w1 then
              (if m_BlockSize w1 = 0 then Inl DivideByZero
               else Inr (w1\<lparr>m_DataSize := (m_Point w1 + m_BlockSize w1 - 1) sdiv m_BlockSize w1\<rparr>,
                         pSrc1))
            else Inr (w1, pSrc1))
      else Inl OutOfBounds)"

subsection \<open>Read\<close>

text \<open>
  The local state of \<^verbatim>\<open>Read\<close> and \<^verbatim>\<open>Write\<close> is the tuple of the proxy, the client
  pointer, \<^verbatim>\<open>n\<close> and \<^verbatim>\<open>totalRead\<close> (\<^verbatim>\<open>totalWritten\<close>). \<open>Read\<close> is cut at the source's
  own comments: the data already in the buffer (\<open>Read_available\<close>), the direct read
  (\<open>Read_direct\<close>), the buffer-at-a-time loop (\<open>Read_loop\<close>) and the rest
  (\<open>Read_rest\<close>). A loop that does not end is the value \<open>None\<close>.
\<close>

type_synonym 'd locals = "'d BufferedProxy \<times> client_ptr \<times> int \<times> int"

definition Read_available :: "'d locals \<Rightarrow> error + 'd locals" where
  "Read_available l =
     (let (w, pDst, n, totalRead) = l;
          bytesToRead = min n (RemainingReadAmount w)
      in if bytesToRead > 0 then
           (case CopyOut w pDst bytesToRead of
              Inl e \<Rightarrow> Inl e
            | Inr (w1, pDst1) \<Rightarrow> Inr (w1, pDst1, n - bytesToRead, totalRead + bytesToRead))
         else Inr l)"

definition Read_direct :: "'d BufferedObject \<Rightarrow> 'd locals \<Rightarrow> error + 'd locals" where
  "Read_direct bo l =
     (let (w, pDst, n, totalRead) = l;
          w1 = w\<lparr>m_BufferLoc := m_BufferLoc w + m_DataSize w\<rparr>
      in case HighestMultiple n (m_BufferSize w1) of
           Inl e \<Rightarrow> Inl e
         | Inr m \<Rightarrow>
             if m_BlockSize w1 = 0 then Inl DivideByZero
             else
               (let blocksToRead = m sdiv m_BlockSize w1;
                    (blocksRead, bytes, w2) = obj_Read bo w1 (address pDst) blocksToRead;
                    bytesRead = blocksRead * m_BlockSize w2;
                    pDst1 = pDst\<lparr>region := store (region pDst) (nat (offset pDst)) bytes,
                                 offset := offset pDst + bytesRead\<rparr>
                in Inr (w2\<lparr>m_BufferLoc := m_BufferLoc w2 + blocksRead, m_Point := 0, m_DataSize := 0\<rparr>,
                        pDst1, n - bytesRead, totalRead + bytesRead)))"

partial_function (option) Read_loop :: "'d BufferedObject \<Rightarrow> 'd locals \<Rightarrow> (error + 'd locals) option" where
  "Read_loop bo l =
     (let (w, pDst, n, totalRead) = l in
      if n \<ge> m_BufferSize w then
        (let w1 = Fill bo (w\<lparr>m_BufferLoc := m_BufferLoc w + m_DataSize w\<rparr>);
             k = m_DataSize w1 * m_BlockSize w1
         in case CopyOut w1 pDst k of
              Inl e \<Rightarrow> Some (Inl e)
            | Inr (w2, pDst1) \<Rightarrow>
                if m_DataSize w2 < m_BufferSize w2 then Some (Inr (w2, pDst1, n - k, totalRead + k))
                else Read_loop bo (w2, pDst1, n - k, totalRead + k))
      else Some (Inr l))"

declare Read_loop.simps [code]

definition Read_rest :: "'d BufferedObject \<Rightarrow> 'd locals \<Rightarrow> error + 'd locals" where
  "Read_rest bo l =
     (let (w, pDst, n, totalRead) = l in
      if n > 0 then
        (let w1 = Flush bo w;
             w2 = Fill bo (w1\<lparr>m_BufferLoc := m_BufferLoc w1 + m_DataSize w1\<rparr>)
         in Read_available (w2, pDst, n, totalRead))
      else Inr l)"

text \<open>
  \<open>Read bo w pDst dst n\<close>: \<open>dst\<close> is the client's memory at \<open>pDst\<close>. The result is
  \<^verbatim>\<open>totalRead\<close>, the proxy, and the client's memory afterwards.
\<close>

definition Read :: "'d BufferedObject \<Rightarrow> 'd BufferedProxy \<Rightarrow> addr \<Rightarrow> byte list \<Rightarrow> int
    \<Rightarrow> (error + (int \<times> 'd BufferedProxy \<times> byte list)) option" where
  "Read bo w pDst dst n =
     (case Read_available (w, \<lparr>base = pDst, offset = 0, region = dst\<rparr>, n, 0) of
        Inl e \<Rightarrow> Some (Inl e)
      | Inr (w1, pDst1, n1, total1) \<Rightarrow>
          (case (if n1 \<ge> m_BufferSize w1 then
                   (let w2 = Flush bo w1 in
                    if m_Flags w2 AND CF_NO_DIRECT_IO = 0
                       \<and> IsAligned (ucast (address pDst1)) (m_BufferAlign w2)
                    then Some (Read_direct bo (w2, pDst1, n1, total1))
                    else Read_loop bo (w2, pDst1, n1, total1))
                 else Some (Inr (w1, pDst1, n1, total1))) of
             None \<Rightarrow> None
           | Some (Inl e) \<Rightarrow> Some (Inl e)
           | Some (Inr l) \<Rightarrow>
               (case Read_rest bo l of
                  Inl e \<Rightarrow> Some (Inl e)
                | Inr (w3, pDst3, n3, total3) \<Rightarrow> Some (Inr (total3, w3, region pDst3)))))"

subsection \<open>Write\<close>

definition Write_available :: "'d locals \<Rightarrow> error + 'd locals" where
  "Write_available l =
     (let (w, pSrc, n, totalWritten) = l;
          bytesToWrite = min n (RemainingWriteSpace w)
      in if bytesToWrite > 0 then
           (case CopyIn w pSrc bytesToWrite of
              Inl e \<Rightarrow> Inl e
            | Inr (w1, pSrc1) \<Rightarrow> Inr (w1, pSrc1, n - bytesToWrite, totalWritten + bytesToWrite))
         else Inr l)"

definition Write_direct :: "'d BufferedObject \<Rightarrow> 'd locals \<Rightarrow> error + 'd locals" where
  "Write_direct bo l =
     (let (w, pSrc, n, totalWritten) = l
      in case HighestMultiple n (m_BufferSize w) of
           Inl e \<Rightarrow> Inl e
         | Inr m \<Rightarrow>
             if m_BlockSize w = 0 then Inl DivideByZero
             else
               (let blocksToWrite = m sdiv m_BlockSize w;
                    (blocksWritten, w1) =
                       obj_Write bo w (address pSrc) (drop (nat (offset pSrc)) (region pSrc))
                         blocksToWrite;
                    bytesWritten = blocksWritten * m_BlockSize w1
                in Inr (w1\<lparr>m_BufferLoc := m_BufferLoc w1 + blocksWritten, m_Point := 0, m_DataSize := 0\<rparr>,
                        pSrc\<lparr>offset := offset pSrc + bytesWritten\<rparr>,
                        n - bytesWritten, totalWritten + bytesWritten)))"

partial_function (option) Write_loop :: "'d BufferedObject \<Rightarrow> 'd locals \<Rightarrow> (error + 'd locals) option" where
  "Write_loop bo l =
     (let (w, pSrc, n, totalWritten) = l in
      if n \<ge> m_BufferSize w then
        (case CopyIn w pSrc (m_BufferSize w) of
           Inl e \<Rightarrow> Some (Inl e)
         | Inr (w1, pSrc1) \<Rightarrow>
             (let w2 = Flush bo w1;
                  w3 = w2\<lparr>m_BufferLoc := m_BufferLoc w2 + m_BufferSizeInBlocks w2\<rparr>
              in Write_loop bo (w3, pSrc1, n - m_BufferSize w1, totalWritten + m_BufferSize w1)))
      else Some (Inr l))"

partial_function (option) Write_rest :: "'d BufferedObject \<Rightarrow> 'd locals \<Rightarrow> (error + 'd locals) option" where
  "Write_rest bo l =
     (let (w, pSrc, n, totalWritten) = l in
      if n > 0 then
        (let w1 = Flush bo w;
             w2 = (if n < m_BufferSize w1 \<and> m_Flags w1 AND CF_NO_FILLS = 0 then Fill bo w1 else w1);
             bytesToWrite = min n (RemainingWriteSpace w2)
         in if bytesToWrite \<le> 0 then Some (Inr (w2, pSrc, n, totalWritten))
            else
              (case CopyIn w2 pSrc bytesToWrite of
                 Inl e \<Rightarrow> Some (Inl e)
               | Inr (w3, pSrc1) \<Rightarrow>
                   (let w4 = (if m_Point w3 \<ge> m_BufferSize w3 then Flush bo w3 else w3)
                    in Write_rest bo (w4, pSrc1, n - bytesToWrite, totalWritten + bytesToWrite))))
      else Some (Inr l))"

declare Write_loop.simps [code]
declare Write_rest.simps [code]

text \<open>
  \<open>Write bo w pSrc src n\<close>: \<open>src\<close> is the client's memory at \<open>pSrc\<close>. The result is
  \<^verbatim>\<open>totalWritten\<close> and the proxy.
\<close>

definition Write :: "'d BufferedObject \<Rightarrow> 'd BufferedProxy \<Rightarrow> addr \<Rightarrow> byte list \<Rightarrow> int
    \<Rightarrow> (error + (int \<times> 'd BufferedProxy)) option" where
  "Write bo w pSrc src n =
     (case Write_available (w, \<lparr>base = pSrc, offset = 0, region = src\<rparr>, n, 0) of
        Inl e \<Rightarrow> Some (Inl e)
      | Inr (w1, pSrc1, n1, total1) \<Rightarrow>
          (case (if n1 \<ge> m_BufferSize w1 then
                   (let w2 = Flush bo w1;
                        w3 = w2\<lparr>m_BufferLoc := m_BufferLoc w2 + m_DataSize w2\<rparr>
                    in if m_Flags w3 AND CF_NO_DIRECT_IO = 0
                          \<and> IsAligned (ucast (address pSrc1)) (m_BufferAlign w3)
                       then Some (Write_direct bo (w3, pSrc1, n1, total1))
                       else Write_loop bo (w3, pSrc1, n1, total1))
                 else Some (Inr (w1, pSrc1, n1, total1))) of
             None \<Rightarrow> None
           | Some (Inl e) \<Rightarrow> Some (Inl e)
           | Some (Inr l) \<Rightarrow>
               (case Write_rest bo l of
                  None \<Rightarrow> None
                | Some (Inl e) \<Rightarrow> Some (Inl e)
                | Some (Inr (w4, pSrc4, n4, total4)) \<Rightarrow> Some (Inr (total4, w4)))))"

subsection \<open>Seek\<close>

definition Seek :: "'d BufferedObject \<Rightarrow> 'd BufferedProxy \<Rightarrow> int \<Rightarrow> error + (int \<times> 'd BufferedProxy)" where
  "Seek bo w location =
     (if location \<ge> int32 (m_BufferLoc w * m_BlockSize w)
         \<and> location < int32 (int32 (m_BufferLoc w + m_DataSize w) * m_BlockSize w)
      then Inr (location,
                w\<lparr>m_Point := int32 (location - int32 (m_BufferLoc w * m_BlockSize w))\<rparr>)
      else
        (let w1 = Flush bo w;
             alignedLocation = HighestMultiplePowerOf2 location (sint (m_SectorAlign w1))
         in if m_BlockSize w1 = 0 then Inl DivideByZero
            else
              (let (r, w2) = obj_Seek bo w1 (int32 (alignedLocation sdiv m_BlockSize w1));
                   w3 = Fill bo (w2\<lparr>m_BufferLoc := r\<rparr>)
               in Inr (location,
                       w3\<lparr>m_Point :=
                            int32 (m_Point w3
                                   + int32 (location - int32 (m_BufferLoc w3 * m_BlockSize w3)))\<rparr>))))"

subsection \<open>The constructor\<close>

text \<open>
  \<open>BufferedProxy_ctor pBuffer mem bufferSize handle d flags blockSize sectorAlign bufferAlign\<close>:
  \<open>mem\<close> is the memory at \<open>pBuffer\<close> and \<open>d\<close> the state of the object behind
  \<^verbatim>\<open>pBufferedObject\<close>. A \<^verbatim>\<open>throw\<close> is \<open>Inl (ConstructorFailedException msg)\<close>.
\<close>

definition BufferedProxy_ctor :: "addr \<Rightarrow> byte list \<Rightarrow> int \<Rightarrow> uint \<Rightarrow> 'd \<Rightarrow> uint \<Rightarrow> int \<Rightarrow> uint \<Rightarrow> uint
    \<Rightarrow> error + 'd BufferedProxy" where
  "BufferedProxy_ctor pBuffer mem bufferSize handle d flags blockSize sectorAlign bufferAlign =
     (if \<not> IsPowerOf2 (sint sectorAlign) then
        Inl (ConstructorFailedException ''The sector alignment must be a power of two.'')
      else if \<not> IsPowerOf2 (sint bufferAlign) then
        Inl (ConstructorFailedException ''The buffer alignment must be a power of two.'')
      else if blockSize = 0 then Inl DivideByZero
      else if bufferSize smod blockSize \<noteq> 0 then
        Inl (ConstructorFailedException ''The buffer size must be a multiple of the block size.'')
      else if \<not> IsAligned (ucast pBuffer) (bufferAlign - 1) then
        Inl (ConstructorFailedException ''The buffer must be aligned on a bufferAlign boundary.'')
      else
        (case (if sint sectorAlign > blockSize then
                 (case IsMultipleOf (sint sectorAlign) blockSize of
                    Inl e \<Rightarrow> Inl e
                  | Inr b \<Rightarrow>
                      if \<not> b then
                        Inl (ConstructorFailedException
                               ''The sector alignement must be a multiple of the block size.'')
                      else Inr ())
               else
                 (case IsMultipleOf blockSize (sint sectorAlign) of
                    Inl e \<Rightarrow> Inl e
                  | Inr b \<Rightarrow>
                      if \<not> b then
                        Inl (ConstructorFailedException
                               ''The block size must be a multiple of the sector alignement.'')
                      else Inr ())) of
           Inl e \<Rightarrow> Inl e
         | Inr u \<Rightarrow>
             Inr \<lparr>m_Handle = handle,
                  m_paBuffer = pBuffer,
                  buffer = mem,
                  m_BufferSize = bufferSize,
                  m_BufferSizeInBlocks = bufferSize sdiv blockSize,
                  m_pBufferedObject = d,
                  m_BlockSize = blockSize,
                  m_SectorAlign = sectorAlign - 1,
                  m_BufferAlign = bufferAlign - 1,
                  m_Flags = flags,
                  m_Point = 0,
                  m_BufferLoc = 0,
                  m_DataSize = 0,
                  m_IsDirty = False,
                  calls = []\<rparr>))"

text \<open>The destructor flushes; what the flush could not write is lost with the proxy.\<close>

definition BufferedProxy_dtor :: "'d BufferedObject \<Rightarrow> 'd BufferedProxy \<Rightarrow> 'd BufferedProxy" where
  "BufferedProxy_dtor bo w = Flush bo w"

subsection \<open>A fault-free device\<close>

text \<open>
  Modelled from the spec: the device contract (section 6 of the specification and the
  comments of \<^verbatim>\<open>BufferedObject\<close> in Buffer.h); no implementation of the abstract class
  is part of the sources. \<open>ram_device bs\<close> is an array of blocks of \<open>bs\<close> bytes with a
  current position \<open>pos\<close>, counted in blocks. Seek moves to any block from 0 to the
  capacity and returns it, elsewhere it returns -1 and does not move; Read and Write
  transfer as many whole blocks as were asked for and fit before the end of the array,
  and move the position behind them.
\<close>

record ram =
  cells :: "byte list"
  pos :: int

definition ram_capacity :: "int \<Rightarrow> ram \<Rightarrow> int" where
  "ram_capacity bs d = int (length (cells d)) div bs"

definition ram_Seek :: "int \<Rightarrow> ram \<Rightarrow> uint \<Rightarrow> int \<Rightarrow> int \<times> ram" where
  "ram_Seek bs d handle location =
     (if 0 \<le> location \<and> location \<le> ram_capacity bs d then (location, d\<lparr>pos := location\<rparr>)
      else (-1, d))"

definition ram_Read :: "int \<Rightarrow> ram \<Rightarrow> uint \<Rightarrow> int \<Rightarrow> int \<times> byte list \<times> ram" where
  "ram_Read bs d handle n =
     (let k = max 0 (min n (ram_capacity bs d - pos d))
      in (k, take (nat (k * bs)) (drop (nat (pos d * bs)) (cells d)), d\<lparr>pos := pos d + k\<rparr>))"

definition ram_Write :: "int \<Rightarrow> ram \<Rightarrow> uint \<Rightarrow> byte list \<Rightarrow> int \<Rightarrow> int \<times> ram" where
  "ram_Write bs d handle bytes n =
     (let k = max 0 (min n (ram_capacity bs d - pos d))
      in (k, d\<lparr>cells := store (cells d) (nat (pos d * bs)) (take (nat (k * bs)) bytes),
                pos := pos d + k\<rparr>))"

definition ram_device :: "int \<Rightarrow> ram BufferedObject" where
  "ram_device bs = \<lparr>bo_Read = ram_Read bs, bo_Write = ram_Write bs, bo_Seek = ram_Seek bs\<rparr>"

subsection \<open>Counting the calls made to the device\<close>


definition reads :: "call list \<Rightarrow> nat" where
  "reads cs = length (filter (\<lambda>c. case c of ReadCall p n \<Rightarrow> True | _ \<Rightarrow> False) cs)"

subsection \<open>Concrete devices and proxies used in the examples\<close>

text \<open>A device of twelve bytes and a device of two bytes, both at position 0.\<close>

definition ram12 :: ram where
  "ram12 = \<lparr>cells = [1, 2, 3, 4, 5, 6, 7, 8, 9, 10, 11, 12], pos = 0\<rparr>"

definition ram2 :: ram where
  "ram2 = \<lparr>cells = [0, 0], pos = 0\<rparr>"

text \<open>
  \<open>c1_start\<close>: buffer of 4 bytes, blocks of 2 bytes, sector alignment 2, buffer alignment
  1, flag \<^verbatim>\<open>CF_NO_DIRECT_IO\<close>, over \<open>ram12\<close>, as the constructor leaves it.
\<close>

definition c1_start :: "ram BufferedProxy" where
  "c1_start = \<lparr>m_Handle = 0, m_paBuffer = 0x1000, buffer = [0, 0, 0, 0], m_BufferSize = 4,
     m_BufferSizeInBlocks = 2, m_pBufferedObject = ram12, m_BlockSize = 2, m_SectorAlign = 1,
     m_BufferAlign = 0, m_Flags = 4, m_Point = 0, m_BufferLoc = 0, m_DataSize = 0,
     m_IsDirty = False, calls = []\<rparr>"

text \<open>
  \<open>c3_start\<close>: buffer of 4 bytes, blocks of 2 bytes, sector alignment 4, buffer alignment
  1, no flags, over \<open>ram12\<close>, as the constructor leaves it.
\<close>

definition c3_start :: "ram BufferedProxy" where
  "c3_start = \<lparr>m_Handle = 0, m_paBuffer = 0x1000, buffer = [0, 0, 0, 0], m_BufferSize = 4,
     m_BufferSizeInBlocks = 2, m_pBufferedObject = ram12, m_BlockSize = 2, m_SectorAlign = 3,
     m_BufferAlign = 0, m_Flags = 0, m_Point = 0, m_BufferLoc = 0, m_DataSize = 0,
     m_IsDirty = False, calls = []\<rparr>"

text \<open>
  \<open>c3_written\<close> is \<open>c3_start\<close> after \<^verbatim>\<open>Write\<close> of the one byte 9, and \<open>c3_end\<close> the
  same proxy after the \<^verbatim>\<open>Read\<close> of four bytes that follows.
\<close>

definition c3_written :: "ram BufferedProxy" where
  "c3_written = c3_start\<lparr>buffer := [9, 0, 0, 0], m_Point := 1, m_DataSize := 1, m_IsDirty := True\<rparr>"

definition c3_end :: "ram BufferedProxy" where
  "c3_end = c3_start\<lparr>buffer := [3, 4, 5, 6],
     m_pBufferedObject := \<lparr>cells = [9, 0, 3, 4, 5, 6, 7, 8, 9, 10, 11, 12], pos = 3\<rparr>,
     m_Point := 3, m_BufferLoc := 1, m_DataSize := 2,
     calls := [SeekCall 0, WriteCall 0x1000 1, SeekCall 1, ReadCall 0x1000 2]\<rparr>"

text \<open>
  \<open>c4_start\<close>: buffer of 2 bytes, blocks of 2 bytes, sector alignment 4, buffer alignment
  1, no flags, over \<open>ram12\<close>, as the constructor leaves it.
\<close>

definition c4_start :: "ram BufferedProxy" where
  "c4_start = \<lparr>m_Handle = 0, m_paBuffer = 0x1000, buffer = [0, 0], m_BufferSize = 2,
     m_BufferSizeInBlocks = 1, m_pBufferedObject = ram12, m_BlockSize = 2, m_SectorAlign = 3,
     m_BufferAlign = 0, m_Flags = 0, m_Point = 0, m_BufferLoc = 0, m_DataSize = 0,
     m_IsDirty = False, calls = []\<rparr>"

text \<open>
  \<open>c6_start\<close>: buffer of 4 bytes, blocks of 1 byte, alignments 1, no flags, over the
  two-byte device \<open>ram2\<close>, as the constructor leaves it; \<open>c6_dirty\<close> is the same proxy
  after \<^verbatim>\<open>Write\<close> of the three bytes 7, 8, 9.
\<close>

definition c6_start :: "ram BufferedProxy" where
  "c6_start = \<lparr>m_Handle = 0, m_paBuffer = 0x1000, buffer = [0, 0, 0, 0], m_BufferSize = 4,
     m_BufferSizeInBlocks = 4, m_pBufferedObject = ram2, m_BlockSize = 1, m_SectorAlign = 0,
     m_BufferAlign = 0, m_Flags = 0, m_Point = 0, m_BufferLoc = 0, m_DataSize = 0,
     m_IsDirty = False, calls = []\<rparr>"

definition c6_dirty :: "ram BufferedProxy" where
  "c6_dirty = c6_start\<lparr>buffer := [7, 8, 9, 0], m_Point := 3, m_DataSize := 3, m_IsDirty := True\<rparr>"

text \<open>
  \<open>c2_start\<close>: buffer of 4096 bytes, blocks of 512 bytes, sector alignment 512, buffer
  alignment 1, as the constructor leaves it; the buffer's address and memory, the handle,
  the device and the flags are parameters.
\<close>

definition c2_start :: "addr \<Rightarrow> byte list \<Rightarrow> uint \<Rightarrow> ram \<Rightarrow> uint \<Rightarrow> ram BufferedProxy" where
  "c2_start pBuffer mem handle d flags =
     \<lparr>m_Handle = handle, m_paBuffer = pBuffer, buffer = mem, m_BufferSize = 4096,
      m_BufferSizeInBlocks = 8, m_pBufferedObject = d, m_BlockSize = 512, m_SectorAlign = 511,
      m_BufferAlign = 0, m_Flags = flags, m_Point = 0, m_BufferLoc = 0, m_DataSize = 0,
      m_IsDirty = False, calls = []\<rparr>"

section \<open>Properties\<close>

subsection \<open>The 32-bit int\<close>

lemma int32_id: "is_int k \<Longrightarrow> int32 k = k"
  by (simp add: is_int_def int32_def signed_take_bit_int_eq_self)

subsection \<open>Bit arithmetic of the alignment helpers\<close>

lemma and_not_mask_int: "(n::int) AND NOT (mask k) = n - take_bit k n"
proof -
  have "push_bit k (drop_bit k n) = n AND NOT (mask k)"
    by (rule bit_eqI) (auto simp add: bit_simps)
  then show ?thesis
    using bits_ident [of k n] by simp
qed

lemma sint_mask_uint: "k < 32 \<Longrightarrow> sint (mask k :: uint) = mask k"
  by (rule bit_eqI) (auto simp add: bit_simps)

lemma HighestMultiplePowerOf2_floor:
  "k < 32 \<Longrightarrow> HighestMultiplePowerOf2 n (sint (2 ^ k - 1 :: uint)) = n - n mod 2 ^ k"
  using sint_mask_uint [of k] and_not_mask_int [of n k]
  by (simp add: HighestMultiplePowerOf2_def take_bit_eq_mod flip: mask_eq_exp_minus_1)

subsection \<open>What Flush and Fill leave alone\<close>

lemma Flush_fields:
  "m_Handle (Flush bo w) = m_Handle w"
  "m_paBuffer (Flush bo w) = m_paBuffer w"
  "buffer (Flush bo w) = buffer w"
  "m_BufferSize (Flush bo w) = m_BufferSize w"
  "m_BufferSizeInBlocks (Flush bo w) = m_BufferSizeInBlocks w"
  "m_BlockSize (Flush bo w) = m_BlockSize w"
  "m_SectorAlign (Flush bo w) = m_SectorAlign w"
  "m_BufferAlign (Flush bo w) = m_BufferAlign w"
  "m_Flags (Flush bo w) = m_Flags w"
  "m_Point (Flush bo w) = m_Point w"
  "m_BufferLoc (Flush bo w) = m_BufferLoc w"
  "m_DataSize (Flush bo w) = m_DataSize w"
  by (simp_all add: Flush_def obj_Seek_def obj_Write_def Let_def case_prod_beta)

lemma Flush_clean: "\<not> m_IsDirty w \<Longrightarrow> Flush bo w = w"
  by (simp add: Flush_def)


lemma Fill_fields:
  "m_Handle (Fill bo w) = m_Handle w"
  "m_paBuffer (Fill bo w) = m_paBuffer w"
  "m_BufferSize (Fill bo w) = m_BufferSize w"
  "m_BufferSizeInBlocks (Fill bo w) = m_BufferSizeInBlocks w"
  "m_BlockSize (Fill bo w) = m_BlockSize w"
  "m_SectorAlign (Fill bo w) = m_SectorAlign w"
  "m_BufferAlign (Fill bo w) = m_BufferAlign w"
  "m_Flags (Fill bo w) = m_Flags w"
  "m_Point (Fill bo w) = 0"
  "m_BufferLoc (Fill bo w) = m_BufferLoc w"
  "m_IsDirty (Fill bo w) = m_IsDirty w"
  by (simp_all add: Fill_def obj_Seek_def obj_Read_def Let_def case_prod_beta)

subsection \<open>Flush\<close>

text \<open>
  C5. \<^verbatim>\<open>Flush\<close> does nothing unless the buffer is dirty and holds data. Otherwise it asks
  the device to seek to \<^verbatim>\<open>m_BufferLoc\<close>. If the device reports another location, only
  that one call was made and the proxy's own fields are as before, the dirty flag still
  set. If the device reports \<^verbatim>\<open>m_BufferLoc\<close>, one write of \<^verbatim>\<open>m_DataSize\<close> blocks from the
  buffer follows, and the dirty flag is cleared exactly when the device reports
  \<^verbatim>\<open>m_DataSize\<close> blocks written. No call is repeated.
\<close>

theorem Flush_behaviour:
  "Flush bo w =
     (if \<not> (m_IsDirty w \<and> 0 < m_DataSize w) then w
      else
        (let (seekValue, d1) = bo_Seek bo (m_pBufferedObject w) (m_Handle w) (m_BufferLoc w) in
         if seekValue \<noteq> m_BufferLoc w then
           w\<lparr>m_pBufferedObject := d1, calls := calls w @ [SeekCall (m_BufferLoc w)]\<rparr>
         else
           (let (blocksFlushed, d2) =
                  bo_Write bo d1 (m_Handle w)
                    (take (nat (m_DataSize w * m_BlockSize w)) (buffer w)) (m_DataSize w)
            in w\<lparr>m_pBufferedObject := d2,
                 calls := calls w @ [SeekCall (m_BufferLoc w), WriteCall (m_paBuffer w) (m_DataSize w)],
                 m_IsDirty := (blocksFlushed \<noteq> m_DataSize w)\<rparr>)))"
  by (simp add: Flush_def obj_Seek_def obj_Write_def Let_def case_prod_beta)

text \<open>
  C9. \<^verbatim>\<open>Flush\<close> changes no field of the proxy but the dirty flag (the device's state and
  the log of calls apart), the dirty flag is set afterwards only if it was set before,
  and among the calls it makes to the device there is no read.
\<close>

theorem Flush_frame:
  "Flush bo w = w\<lparr>m_pBufferedObject := m_pBufferedObject (Flush bo w),
                  calls := calls (Flush bo w),
                  m_IsDirty := m_IsDirty (Flush bo w)\<rparr>
   \<and> (m_IsDirty (Flush bo w) \<longrightarrow> m_IsDirty w)
   \<and> (\<exists>c. calls (Flush bo w) = calls w @ c \<and> reads c = 0)"
  by (simp add: Flush_def obj_Seek_def obj_Write_def Let_def reads_def case_prod_beta)

theorem Flush_frame_witness:
  "m_IsDirty (Flush (ram_device 1) c6_dirty) \<and> m_IsDirty c6_dirty
   \<and> (\<exists>c. calls (Flush (ram_device 1) c6_dirty) = calls c6_dirty @ c \<and> reads c = 0)"
proof -
  have h: "m_IsDirty (Flush (ram_device 1) c6_dirty)"
    by code_simp
  from Flush_frame [of "ram_device 1" c6_dirty] h show ?thesis
    by blast
qed







subsection \<open>Read and Write of nothing\<close>

text \<open>
  C10. On a proxy whose buffer size is positive, \<^verbatim>\<open>Read\<close> and \<^verbatim>\<open>Write\<close> of \<open>n \<le> 0\<close>
  bytes return 0 and leave the proxy as it was: every field, the device's state and the
  log of calls to the device; the client's memory is as before, too.
\<close>

theorem Read_Write_nothing:
  assumes "0 < m_BufferSize w" and "n \<le> 0"
  shows "Read bo w pDst dst n = Some (Inr (0, w, dst))
         \<and> Write bo w pSrc src n = Some (Inr (0, w))"
proof -
  have a: "Read_available (w, p, n, 0) = Inr (w, p, n, 0)" for p
    using assms by (simp add: Read_available_def)
  have b: "Read_rest bo (w, p, n, 0) = Inr (w, p, n, 0)" for p
    using assms by (simp add: Read_rest_def)
  have c: "Write_available (w, p, n, 0) = Inr (w, p, n, 0)" for p
    using assms by (simp add: Write_available_def)
  have d: "Write_rest bo (w, p, n, 0) = Some (Inr (w, p, n, 0))" for p
    using assms by (subst Write_rest.simps) simp
  from assms have e: "\<not> m_BufferSize w \<le> n" by simp
  show ?thesis
    by (simp add: Read_def Write_def a b c d e)
qed

theorem Read_Write_nothing_witness:
  "0 < m_BufferSize c6_dirty \<and> (- 5 :: int) \<le> 0
   \<and> Read (ram_device 1) c6_dirty 0x2000 [1, 2] (- 5) = Some (Inr (0, c6_dirty, [1, 2]))
   \<and> Write (ram_device 1) c6_dirty 0x3000 [3, 4] (- 5) = Some (Inr (0, c6_dirty))"
proof -
  have h: "0 < m_BufferSize c6_dirty"
    by (simp add: c6_dirty_def c6_start_def)
  have k: "(- 5 :: int) \<le> 0"
    by simp
  from Read_Write_nothing [OF h k] h show ?thesis
    by simp
qed

subsection \<open>Seek\<close>

text \<open>
  C7, as the code has it. On a proxy with block size other than 0 and sector alignment
  \<open>2 ^ k\<close> (the mask \<open>2 ^ k - 1\<close> is what the constructor stores), \<^verbatim>\<open>Seek location\<close>
  returns \<open>location\<close> and does what follows, provided that the numbers it computes are
  values of a 32-bit \<^verbatim>\<open>int\<close>: the two bounds of the window, the new \<^verbatim>\<open>m_Point\<close>, and,
  when the device is asked, the block requested and the byte address of the block it
  answers. If \<open>location\<close> lies in the bytes \<open>m_BufferLoc * m_BlockSize\<close> up to, and
  without, \<open>(m_BufferLoc + m_DataSize) * m_BlockSize\<close>, only \<^verbatim>\<open>m_Point\<close> changes, to
  \<open>location - m_BufferLoc * m_BlockSize\<close>, and the device is not called. Otherwise the
  proxy flushes, asks the device to seek to the block \<open>request\<close> of \<open>location\<close> rounded
  down to a multiple of the sector alignment, takes the device's answer \<open>r\<close> as
  \<^verbatim>\<open>m_BufferLoc\<close>, fills, and sets \<^verbatim>\<open>m_Point\<close> to \<open>location - r * m_BlockSize\<close>.
\<close>

theorem Seek_behaviour:
  assumes "m_BlockSize w \<noteq> 0" and "m_SectorAlign w = 2 ^ k - 1" and "k < 32"
    and "is_int location"
    and "is_int (m_BufferLoc w * m_BlockSize w)"
    and "is_int (m_BufferLoc w + m_DataSize w)"
    and "is_int ((m_BufferLoc w + m_DataSize w) * m_BlockSize w)"
    and "request = (location - location mod 2 ^ k) sdiv m_BlockSize w"
    and "bo_Seek bo (m_pBufferedObject (Flush bo w)) (m_Handle w) request = (r, d)"
    and "if m_BufferLoc w * m_BlockSize w \<le> location
            \<and> location < (m_BufferLoc w + m_DataSize w) * m_BlockSize w
         then is_int (location - m_BufferLoc w * m_BlockSize w)
         else is_int request \<and> is_int (r * m_BlockSize w) \<and> is_int (location - r * m_BlockSize w)"
  shows "Seek bo w location =
     (if m_BufferLoc w * m_BlockSize w \<le> location
         \<and> location < (m_BufferLoc w + m_DataSize w) * m_BlockSize w
      then Inr (location, w\<lparr>m_Point := location - m_BufferLoc w * m_BlockSize w\<rparr>)
      else
        (let w1 = Flush bo w;
             w3 = Fill bo (w1\<lparr>m_pBufferedObject := d, calls := calls w1 @ [SeekCall request],
                              m_BufferLoc := r\<rparr>)
         in Inr (location, w3\<lparr>m_Point := location - r * m_BlockSize w\<rparr>)))"
proof (cases "m_BufferLoc w * m_BlockSize w \<le> location
         \<and> location < (m_BufferLoc w + m_DataSize w) * m_BlockSize w")
  case True
  with assms(10) have "is_int (location - m_BufferLoc w * m_BlockSize w)"
    by simp
  with assms(5-7) show ?thesis
    by (simp add: True Seek_def int32_id)
next
  case False
  with assms(10) have f: "is_int request" "is_int (r * m_BlockSize w)"
      "is_int (location - r * m_BlockSize w)"
    by simp_all
  have a: "HighestMultiplePowerOf2 location (sint (m_SectorAlign w)) = location - location mod 2 ^ k"
    using assms(2,3) by (simp add: HighestMultiplePowerOf2_floor)
  from assms(1,5-7) f show ?thesis
    by (simp add: False Seek_def int32_id obj_Seek_def Let_def Flush_fields Fill_fields a
        assms(8) [symmetric] assms(9))
qed

theorem Seek_behaviour_witness:
  "m_BlockSize c3_start \<noteq> 0 \<and> m_SectorAlign c3_start = 2 ^ 2 - 1 \<and> (2::nat) < 32
   \<and> is_int 7
   \<and> is_int (m_BufferLoc c3_start * m_BlockSize c3_start)
   \<and> is_int (m_BufferLoc c3_start + m_DataSize c3_start)
   \<and> is_int ((m_BufferLoc c3_start + m_DataSize c3_start) * m_BlockSize c3_start)
   \<and> (2::int) = (7 - 7 mod 2 ^ 2) sdiv m_BlockSize c3_start
   \<and> bo_Seek (ram_device 2) (m_pBufferedObject (Flush (ram_device 2) c3_start)) (m_Handle c3_start) 2
       = (2, ram12\<lparr>pos := 2\<rparr>)
   \<and> \<not> 7 < (m_BufferLoc c3_start + m_DataSize c3_start) * m_BlockSize c3_start
   \<and> is_int 2 \<and> is_int (2 * m_BlockSize c3_start) \<and> is_int (7 - 2 * m_BlockSize c3_start)
   \<and> Seek (ram_device 2) c3_start 7 =
       Inr (7, c3_start\<lparr>buffer := [5, 6, 7, 8], m_pBufferedObject := ram12\<lparr>pos := 4\<rparr>,
                        m_Point := 3, m_BufferLoc := 2, m_DataSize := 2,
                        calls := [SeekCall 2, SeekCall 2, ReadCall 0x1000 2]\<rparr>)
   \<and> m_BlockSize c3_end \<noteq> 0 \<and> m_SectorAlign c3_end = 2 ^ 2 - 1
   \<and> is_int 4
   \<and> is_int (m_BufferLoc c3_end * m_BlockSize c3_end)
   \<and> is_int (m_BufferLoc c3_end + m_DataSize c3_end)
   \<and> is_int ((m_BufferLoc c3_end + m_DataSize c3_end) * m_BlockSize c3_end)
   \<and> m_BufferLoc c3_end * m_BlockSize c3_end \<le> 4
   \<and> 4 < (m_BufferLoc c3_end + m_DataSize c3_end) * m_BlockSize c3_end
   \<and> is_int (4 - m_BufferLoc c3_end * m_BlockSize c3_end)
   \<and> Seek (ram_device 2) c3_end 4 = Inr (4, c3_end\<lparr>m_Point := 2\<rparr>)"
proof -
  have h1: "m_BlockSize c3_start \<noteq> 0"
    by (simp add: c3_start_def)
  have h2: "m_SectorAlign c3_start = 2 ^ 2 - 1"
    by (simp add: c3_start_def)
  have h3: "(2::nat) < 32"
    by simp
  have h4: "is_int 7"
    by (simp add: is_int_def)
  have h5: "is_int (m_BufferLoc c3_start * m_BlockSize c3_start)"
    and h6: "is_int (m_BufferLoc c3_start + m_DataSize c3_start)"
    and h7: "is_int ((m_BufferLoc c3_start + m_DataSize c3_start) * m_BlockSize c3_start)"
    by (simp_all add: is_int_def c3_start_def)
  have h8: "(2::int) = (7 - 7 mod 2 ^ 2) sdiv m_BlockSize c3_start"
    by (simp add: c3_start_def signed_divide_int_def)
  have h9: "bo_Seek (ram_device 2) (m_pBufferedObject (Flush (ram_device 2) c3_start))
              (m_Handle c3_start) 2 = (2, ram12\<lparr>pos := 2\<rparr>)"
    by code_simp
  have n: "\<not> 7 < (m_BufferLoc c3_start + m_DataSize c3_start) * m_BlockSize c3_start"
    by (simp add: c3_start_def)
  have r: "is_int 2" "is_int (2 * m_BlockSize c3_start)" "is_int (7 - 2 * m_BlockSize c3_start)"
    by (simp_all add: is_int_def c3_start_def)
  have h10: "if m_BufferLoc c3_start * m_BlockSize c3_start \<le> 7
            \<and> 7 < (m_BufferLoc c3_start + m_DataSize c3_start) * m_BlockSize c3_start
         then is_int (7 - m_BufferLoc c3_start * m_BlockSize c3_start)
         else is_int 2 \<and> is_int (2 * m_BlockSize c3_start) \<and> is_int (7 - 2 * m_BlockSize c3_start)"
    by (simp add: n r)
  have e: "(let w1 = Flush (ram_device 2) c3_start;
             w3 = Fill (ram_device 2) (w1\<lparr>m_pBufferedObject := ram12\<lparr>pos := 2\<rparr>,
                              calls := calls w1 @ [SeekCall 2], m_BufferLoc := 2\<rparr>)
         in (Inr (7, w3\<lparr>m_Point := 7 - 2 * m_BlockSize c3_start\<rparr>) :: error + int \<times> ram BufferedProxy))
       = Inr (7, c3_start\<lparr>buffer := [5, 6, 7, 8], m_pBufferedObject := ram12\<lparr>pos := 4\<rparr>,
                        m_Point := 3, m_BufferLoc := 2, m_DataSize := 2,
                        calls := [SeekCall 2, SeekCall 2, ReadCall 0x1000 2]\<rparr>)"
    by code_simp
  from Seek_behaviour [OF h1 h2 h3 h4 h5 h6 h7 h8 h9 h10] n e
  have s: "Seek (ram_device 2) c3_start 7 =
       Inr (7, c3_start\<lparr>buffer := [5, 6, 7, 8], m_pBufferedObject := ram12\<lparr>pos := 4\<rparr>,
                        m_Point := 3, m_BufferLoc := 2, m_DataSize := 2,
                        calls := [SeekCall 2, SeekCall 2, ReadCall 0x1000 2]\<rparr>)"
    by simp
  have g1: "m_BlockSize c3_end \<noteq> 0"
    by (simp add: c3_end_def c3_start_def)
  have g2: "m_SectorAlign c3_end = 2 ^ 2 - 1"
    by (simp add: c3_end_def c3_start_def)
  have g4: "is_int 4"
    by (simp add: is_int_def)
  have g5: "is_int (m_BufferLoc c3_end * m_BlockSize c3_end)"
    and g6: "is_int (m_BufferLoc c3_end + m_DataSize c3_end)"
    and g7: "is_int ((m_BufferLoc c3_end + m_DataSize c3_end) * m_BlockSize c3_end)"
    by (simp_all add: is_int_def c3_end_def c3_start_def)
  have i1: "m_BufferLoc c3_end * m_BlockSize c3_end \<le> 4"
    and i2: "4 < (m_BufferLoc c3_end + m_DataSize c3_end) * m_BlockSize c3_end"
    by (simp_all add: c3_end_def c3_start_def)
  have i3: "is_int (4 - m_BufferLoc c3_end * m_BlockSize c3_end)"
    by (simp add: is_int_def c3_end_def c3_start_def)
  have i4: "4 - m_BufferLoc c3_end * m_BlockSize c3_end = 2"
    by (simp add: c3_end_def c3_start_def)
  have g10: "if m_BufferLoc c3_end * m_BlockSize c3_end \<le> 4
            \<and> 4 < (m_BufferLoc c3_end + m_DataSize c3_end) * m_BlockSize c3_end
         then is_int (4 - m_BufferLoc c3_end * m_BlockSize c3_end)
         else is_int ((4 - 4 mod 2 ^ 2) sdiv m_BlockSize c3_end)
              \<and> is_int (fst (bo_Seek (ram_device 2) (m_pBufferedObject (Flush (ram_device 2) c3_end))
                               (m_Handle c3_end) ((4 - 4 mod 2 ^ 2) sdiv m_BlockSize c3_end))
                         * m_BlockSize c3_end)
              \<and> is_int (4 - fst (bo_Seek (ram_device 2) (m_pBufferedObject (Flush (ram_device 2) c3_end))
                               (m_Handle c3_end) ((4 - 4 mod 2 ^ 2) sdiv m_BlockSize c3_end))
                             * m_BlockSize c3_end)"
    by (simp add: i1 i2 i3)
  from Seek_behaviour [OF g1 g2 h3 g4 g5 g6 g7 refl surjective_pairing g10] i1 i2 i4
  have t: "Seek (ram_device 2) c3_end 4 = Inr (4, c3_end\<lparr>m_Point := 2\<rparr>)"
    by simp
  from h1 h2 h3 h4 h5 h6 h7 h8 h9 n r s g1 g2 g4 g5 g6 g7 i1 i2 i3 t show ?thesis
    by blast
qed

text \<open>
  C7, as the claim states it, for every location, fails where these numbers leave the
  range of \<^verbatim>\<open>int\<close>. The proxy \<open>c3_start\<close> (blocks of 2 bytes, sector alignment 4) seeks
  to the byte 2147483647, the largest \<^verbatim>\<open>int\<close>. The device of 12 bytes cannot go to the
  block 1073741822 and answers \<open>-1\<close>, which becomes \<^verbatim>\<open>m_BufferLoc\<close>. Then
  \<open>location - m_BufferLoc * m_BlockSize\<close> is 2147483649, which is not a value of \<^verbatim>\<open>int\<close>,
  so that \<^verbatim>\<open>m_Point\<close> cannot be set to it; wrapped around, \<^verbatim>\<open>m_Point\<close> is
  \<open>-2147483647\<close>.
\<close>

theorem Seek_wraps_counterexample:
  "BufferedProxy_ctor 0x1000 [0, 0, 0, 0] 4 0 ram12 0 2 4 1 = Inr c3_start
   \<and> Seek (ram_device 2) c3_start 2147483647
      = Inr (2147483647,
             c3_start\<lparr>buffer := [1, 2, 3, 4], m_pBufferedObject := ram12\<lparr>pos := 2\<rparr>,
                       m_Point := - 2147483647, m_BufferLoc := - 1, m_DataSize := 2,
                       calls := [SeekCall 1073741822, SeekCall (- 1), ReadCall 0x1000 2]\<rparr>)
   \<and> 2147483647 - (- 1) * m_BlockSize c3_start = 2147483649
   \<and> \<not> is_int 2147483649"
  by code_simp

subsection \<open>The buffer-at-a-time loop of Read\<close>

text \<open>
  C1. With blocks of more than one byte the loop of \<^verbatim>\<open>Read\<close> ends after its first
  pass although the fill was a full one. The proxy \<open>c1_start\<close> (buffer of 4 bytes,
  blocks of 2 bytes, \<^verbatim>\<open>CF_NO_DIRECT_IO\<close>) reads 12 bytes from a device of 12 bytes. The
  first pass fills the whole buffer (\<^verbatim>\<open>m_DataSize\<close> is 2 blocks, the buffer's size in
  blocks) and copies 4 bytes; 8 bytes, two full buffers, remain, but the loop ends:
  its test \<^verbatim>\<open>m_DataSize < m_BufferSize\<close> compares 2 blocks with 4 bytes. The rest of
  \<^verbatim>\<open>Read\<close> fetches one more buffer, and \<^verbatim>\<open>Read\<close> returns 8 with the device read only
  up to its eighth byte.
\<close>

theorem Read_loop_ends_after_full_fill:
  "BufferedProxy_ctor 0x1000 [0, 0, 0, 0] 4 0 ram12 CF_NO_DIRECT_IO 2 2 1 = Inr c1_start
   \<and> Read_loop (ram_device 2)
        (c1_start, \<lparr>base = 0x2000, offset = 0, region = [0, 0, 0, 0, 0, 0, 0, 0, 0, 0, 0, 0]\<rparr>, 12, 0)
      = Some (Inr (c1_start\<lparr>buffer := [1, 2, 3, 4], m_pBufferedObject := ram12\<lparr>pos := 2\<rparr>,
                            m_Point := 4, m_DataSize := 2,
                            calls := [SeekCall 0, ReadCall 0x1000 2]\<rparr>,
                   \<lparr>base = 0x2000, offset = 4, region = [1, 2, 3, 4, 0, 0, 0, 0, 0, 0, 0, 0]\<rparr>,
                   8, 4))
   \<and> m_BufferSizeInBlocks c1_start = 2
   \<and> m_BufferSize c1_start = 4
   \<and> Read (ram_device 2) c1_start 0x2000 [0, 0, 0, 0, 0, 0, 0, 0, 0, 0, 0, 0] 12
      = Some (Inr (8, c1_start\<lparr>buffer := [5, 6, 7, 8], m_pBufferedObject := ram12\<lparr>pos := 4\<rparr>,
                               m_Point := 4, m_BufferLoc := 2, m_DataSize := 2,
                               calls := [SeekCall 0, ReadCall 0x1000 2, SeekCall 2, ReadCall 0x1000 2]\<rparr>,
                   [1, 2, 3, 4, 5, 6, 7, 8, 0, 0, 0, 0]))"
  by code_simp

subsection \<open>The alignment of the buffer's location\<close>

text \<open>
  C3. The buffer's location does not stay sector-aligned. The proxy \<open>c3_start\<close> has
  blocks of 2 bytes and sector alignment 4 (the mask 3 plus 1). After \<^verbatim>\<open>Write\<close> of one
  byte and \<^verbatim>\<open>Read\<close> of four bytes, \<^verbatim>\<open>m_BufferLoc\<close> is 1, the byte address 2, which is
  no multiple of 4; the device was asked to seek to block 1 and to read from there; and
  the condition that \<^verbatim>\<open>Flush\<close> asserts is false.
\<close>

theorem BufferLoc_leaves_sector_alignment:
  "BufferedProxy_ctor 0x1000 [0, 0, 0, 0] 4 0 ram12 0 2 4 1 = Inr c3_start
   \<and> Write (ram_device 2) c3_start 0x3000 [9] 1 = Some (Inr (1, c3_written))
   \<and> Read (ram_device 2) c3_written 0x2000 [0, 0, 0, 0] 4 = Some (Inr (4, c3_end, [0, 3, 4, 5]))
   \<and> m_BufferLoc c3_end = 1
   \<and> m_BufferLoc c3_end * m_BlockSize c3_end = 2
   \<and> m_SectorAlign c3_end + 1 = 4
   \<and> calls c3_end = [SeekCall 0, WriteCall 0x1000 1, SeekCall 1, ReadCall 0x1000 2]
   \<and> \<not> Flush_assert c3_end"
  by code_simp

subsection \<open>The range of the cursor\<close>

text \<open>
  C4. \<^verbatim>\<open>Seek\<close> can leave \<^verbatim>\<open>m_Point\<close> beyond the buffer. The proxy \<open>c4_start\<close> has a
  buffer of 2 bytes, blocks of 2 bytes and sector alignment 4. \<^verbatim>\<open>Seek\<close> to byte 3 asks
  the device for block 0, which the device confirms, fills the buffer from there, and
  sets \<^verbatim>\<open>m_Point\<close> to 3, one more than the buffer's size. The proxy \<open>c3_start\<close> has a
  buffer of 4 bytes over a device of 12 bytes. \<^verbatim>\<open>Seek\<close> to byte 100 asks the device for
  block 50; the device answers -1, which becomes \<^verbatim>\<open>m_BufferLoc\<close>, and \<^verbatim>\<open>m_Point\<close>
  becomes 102.
\<close>

theorem Seek_moves_point_beyond_buffer:
  "BufferedProxy_ctor 0x1000 [0, 0] 2 0 ram12 0 2 4 1 = Inr c4_start
   \<and> Seek (ram_device 2) c4_start 3
      = Inr (3, c4_start\<lparr>buffer := [1, 2], m_pBufferedObject := ram12\<lparr>pos := 1\<rparr>,
                         m_Point := 3, m_DataSize := 1,
                         calls := [SeekCall 0, SeekCall 0, ReadCall 0x1000 1]\<rparr>)
   \<and> m_BufferSize c4_start = 2
   \<and> BufferedProxy_ctor 0x1000 [0, 0, 0, 0] 4 0 ram12 0 2 4 1 = Inr c3_start
   \<and> Seek (ram_device 2) c3_start 100
      = Inr (100, c3_start\<lparr>buffer := [1, 2, 3, 4], m_pBufferedObject := ram12\<lparr>pos := 2\<rparr>,
                           m_Point := 102, m_BufferLoc := - 1, m_DataSize := 2,
                           calls := [SeekCall 50, SeekCall (- 1), ReadCall 0x1000 2]\<rparr>)
   \<and> m_BufferSize c3_start = 4"
  by code_simp

text \<open>
  The buffer-at-a-time loop of \<^verbatim>\<open>Write\<close> is entered with \<^verbatim>\<open>m_Point\<close> at the end of
  the buffer and calls \<^verbatim>\<open>CopyIn\<close> for a whole buffer more: the condition \<^verbatim>\<open>CopyIn\<close>
  asserts is false and the \<^verbatim>\<open>memcpy\<close> leaves the buffer. With \<open>c1_start\<close> (buffer of 4
  bytes, \<^verbatim>\<open>CF_NO_DIRECT_IO\<close>) a \<^verbatim>\<open>Write\<close> of 8 bytes ends so.
\<close>

lemma Write_loop_leaves_buffer:
  "Write (ram_device 2) c1_start 0x2000 [1, 2, 3, 4, 5, 6, 7, 8] 8 = Some (Inl OutOfBounds)
   \<and> \<not> CopyIn_assert
         (c1_start\<lparr>buffer := [1, 2, 3, 4], m_pBufferedObject := ram12\<lparr>pos := 2\<rparr>, m_Point := 4,
                    m_BufferLoc := 2, m_DataSize := 2,
                    calls := [SeekCall 0, WriteCall 0x1000 2]\<rparr>) 4"
  by code_simp

subsection \<open>The constructor\<close>

text \<open>
  C8. The constructor accepts a buffer alignment of 0, which is not a power of two:
  \<^verbatim>\<open>_IsPowerOf2\<close> holds of 0, and the mask \<open>0 - 1\<close> lets through every address whose low
  32 bits are 0. The proxy it returns has \<^verbatim>\<open>m_BufferAlign\<close> \<open>0xFFFFFFFF\<close>.
\<close>

theorem ctor_accepts_alignment_zero:
  "IsPowerOf2 (sint (0 :: uint))
   \<and> BufferedProxy_ctor 0x100000000 [0, 0, 0, 0] 4 0 ram12 0 2 2 0
      = Inr \<lparr>m_Handle = 0, m_paBuffer = 0x100000000, buffer = [0, 0, 0, 0], m_BufferSize = 4,
             m_BufferSizeInBlocks = 2, m_pBufferedObject = ram12, m_BlockSize = 2,
             m_SectorAlign = 1, m_BufferAlign = 0xFFFFFFFF, m_Flags = 0, m_Point = 0,
             m_BufferLoc = 0, m_DataSize = 0, m_IsDirty = False, calls = []\<rparr>"
  by code_simp

subsection \<open>Write, Seek and Read over the fault-free device\<close>

lemma length_store [simp]: "length (store m off bs) = length m"
  by (simp add: store_def)

lemma nth_store:
  "i < length m \<Longrightarrow>
   store m off bs ! i = (if off \<le> i \<and> i < off + length bs then bs ! (i - off) else m ! i)"
  by (auto simp add: store_def nth_append)

lemma ram_capacity_pos [simp]: "ram_capacity bs (d\<lparr>pos := p\<rparr>) = ram_capacity bs d"
  by (simp add: ram_capacity_def)

lemma ram_capacity_cells [simp]:
  "length x = length (cells d) \<Longrightarrow> ram_capacity bs (d\<lparr>cells := x\<rparr>) = ram_capacity bs d"
  by (simp add: ram_capacity_def)

lemma Flush_ram:
  assumes "m_IsDirty w" and "0 < m_DataSize w" and "0 \<le> m_BufferLoc w"
    and "m_BufferLoc w + m_DataSize w \<le> ram_capacity bs (m_pBufferedObject w)"
    and "m_BlockSize w = bs"
  shows "Flush (ram_device bs) w =
           w\<lparr>m_pBufferedObject := (m_pBufferedObject w)
                \<lparr>cells := store (cells (m_pBufferedObject w)) (nat (m_BufferLoc w * bs))
                            (take (nat (m_DataSize w * bs)) (buffer w)),
                 pos := m_BufferLoc w + m_DataSize w\<rparr>,
             calls := calls w @ [SeekCall (m_BufferLoc w), WriteCall (m_paBuffer w) (m_DataSize w)],
             m_IsDirty := False\<rparr>"
  using assms
  by (simp add: Flush_def obj_Seek_def obj_Write_def ram_device_def ram_Seek_def ram_Write_def
      Let_def min_absorb1)

lemma Fill_ram:
  assumes "m_Flags w AND CF_NO_FILLS = 0" and "0 \<le> m_BufferLoc w"
    and "m_BufferLoc w \<le> ram_capacity bs (m_pBufferedObject w)"
    and "m_BlockSize w = bs"
  shows "Fill (ram_device bs) w =
           w\<lparr>buffer := store (buffer w) 0
                (take (nat (m_BufferSizeInBlocks w * bs))
                   (take (nat (max 0 (min (m_BufferSizeInBlocks w)
                                  (ram_capacity bs (m_pBufferedObject w) - m_BufferLoc w)) * bs))
                      (drop (nat (m_BufferLoc w * bs)) (cells (m_pBufferedObject w))))),
             m_pBufferedObject := (m_pBufferedObject w)
                \<lparr>pos := m_BufferLoc w + max 0 (min (m_BufferSizeInBlocks w)
                                  (ram_capacity bs (m_pBufferedObject w) - m_BufferLoc w))\<rparr>,
             m_Point := 0,
             m_DataSize := max 0 (min (m_BufferSizeInBlocks w)
                                  (ram_capacity bs (m_pBufferedObject w) - m_BufferLoc w)),
             calls := calls w @ [SeekCall (m_BufferLoc w), ReadCall (m_paBuffer w) (m_BufferSizeInBlocks w)]\<rparr>"
  using assms
  by (simp add: Fill_def obj_Seek_def obj_Read_def ram_device_def ram_Seek_def ram_Read_def Let_def)

lemma ctor_c2:
  "BufferedProxy_ctor pBuffer mem 4096 handle d flags 512 512 1 = Inr (c2_start pBuffer mem handle d flags)"
  by (simp add: BufferedProxy_ctor_def c2_start_def IsPowerOf2_def IsAligned_def IsMultipleOf_def
      int32_id is_int_def)

lemma Write_rest_done: "n \<le> 0 \<Longrightarrow> Write_rest bo (w, p, n, t) = Some (Inr (w, p, n, t))"
  by (subst Write_rest.simps) simp

lemma Write_rest_step:
  "0 < n \<Longrightarrow> Write_rest bo (w, pSrc, n, totalWritten) =
        (let w1 = Flush bo w;
             w2 = (if n < m_BufferSize w1 \<and> m_Flags w1 AND CF_NO_FILLS = 0 then Fill bo w1 else w1);
             bytesToWrite = min n (RemainingWriteSpace w2)
         in if bytesToWrite \<le> 0 then Some (Inr (w2, pSrc, n, totalWritten))
            else
              (case CopyIn w2 pSrc bytesToWrite of
                 Inl e \<Rightarrow> Some (Inl e)
               | Inr (w3, pSrc1) \<Rightarrow>
                   (let w4 = (if m_Point w3 \<ge> m_BufferSize w3 then Flush bo w3 else w3)
                    in Write_rest bo (w4, pSrc1, n - bytesToWrite, totalWritten + bytesToWrite))))"
  by (subst Write_rest.simps) simp

lemma sdiv_smod_numerals [simp]:
  "(5904::int) smod 4096 = 1808" "(4096::int) sdiv 512 = 8" "(4607::int) sdiv 512 = 8"
  by (simp_all add: signed_modulo_int_def signed_divide_int_def)

lemma store_all [simp]: "length m \<le> length bs \<Longrightarrow> store m 0 bs = take (length m) bs"
  by (simp add: store_def)

lemma ram_device_sel [simp]:
  "bo_Read (ram_device bs) = ram_Read bs"
  "bo_Write (ram_device bs) = ram_Write bs"
  "bo_Seek (ram_device bs) = ram_Seek bs"
  by (simp_all add: ram_device_def)

lemma HighestMultiplePowerOf2_0 [simp]: "HighestMultiplePowerOf2 0 a = 0"
  by (simp add: HighestMultiplePowerOf2_def)

lemma c2_Write:
  assumes "length mem = 4096" and "length src = 10000" and "20 \<le> ram_capacity 512 d"
    and "flags AND CF_NO_DIRECT_IO = 0" and "flags AND CF_NO_FILLS = 0"
    and "K = max 0 (min 8 (ram_capacity 512 d - 16))"
    and "C = store (store (cells d) 0 (take 4096 src)) 4096 (take 4096 (drop 4096 src))"
  shows "Write (ram_device 512) (c2_start pBuffer mem handle d flags) pSrc src 10000 =
           Some (Inr (10000, (c2_start pBuffer mem handle d flags)
             \<lparr>buffer := store (store (take 4096 src) 0 (take (nat (K * 512)) (drop 8192 C))) 0
                          (drop 8192 src),
              m_pBufferedObject := d\<lparr>cells := C, pos := 16 + K\<rparr>,
              m_Point := 1808, m_BufferLoc := 16, m_DataSize := K, m_IsDirty := True,
              calls := [SeekCall 0, WriteCall pBuffer 8, WriteCall (pSrc + 4096) 8,
                        SeekCall 16, ReadCall pBuffer 8]\<rparr>))"
proof -
  have K: "4 \<le> K" "K \<le> 8"
    using assms(3) by (simp_all add: assms(6))
  note f = assms(6) [symmetric]
  show ?thesis
    using assms(1-5) K
    apply (simp add: Write_def Write_available_def c2_start_def RemainingWriteSpace_def
        CopyIn_def memcpy_ok_def Let_def IsAligned_def)
    apply (simp add: Flush_ram)
    apply (simp add: Write_direct_def HighestMultiple_def obj_Write_def ram_Write_def Let_def)
    apply (simp add: Write_rest_step Flush_clean Fill_ram f RemainingWriteSpace_def)
    apply (simp add: Write_rest_done CopyIn_def memcpy_ok_def assms(7) address_def)
    done
qed

lemma c2_Seek:
  assumes "20 \<le> ram_capacity 512 d" and "flags AND CF_NO_FILLS = 0"
    and "K = max 0 (min 8 (ram_capacity 512 d - 16))"
    and "length B = 4096" and "length C = length (cells d)"
  shows "Seek (ram_device 512) ((c2_start pBuffer mem handle d flags)
             \<lparr>buffer := B,
              m_pBufferedObject := d\<lparr>cells := C, pos := 16 + K\<rparr>,
              m_Point := 1808, m_BufferLoc := 16, m_DataSize := K, m_IsDirty := True,
              calls := cs\<rparr>) 0 =
           Inr (0, (c2_start pBuffer mem handle d flags)
             \<lparr>buffer := take 4096 (store C 8192 (take (nat (K * 512)) B)),
              m_pBufferedObject := d\<lparr>cells := store C 8192 (take (nat (K * 512)) B), pos := 8\<rparr>,
              m_Point := 0, m_BufferLoc := 0, m_DataSize := 8, m_IsDirty := False,
              calls := cs @ [SeekCall 16, WriteCall pBuffer K, SeekCall 0, SeekCall 0,
                             ReadCall pBuffer 8]\<rparr>)"
proof -
  have K: "4 \<le> K" "K \<le> 8" "16 + K \<le> ram_capacity 512 d"
    using assms(1) by (simp_all add: assms(3))
  have L: "10240 \<le> length (cells d)"
    using assms(1) by (simp add: ram_capacity_def)
  show ?thesis
    using assms(1,2,4,5) K L
    apply (simp add: Seek_def c2_start_def Let_def int32_id is_int_def)
    apply (simp add: Flush_ram)
    apply (simp add: obj_Seek_def ram_Seek_def)
    apply (simp add: Fill_ram int32_id is_int_def)
    done
qed

lemma c2_Read:
  assumes "10000 \<le> length dst" and "20 \<le> ram_capacity 512 d"
    and "flags AND CF_NO_DIRECT_IO = 0" and "flags AND CF_NO_FILLS = 0"
    and "K = max 0 (min 8 (ram_capacity 512 d - 16))"
    and "length B = 4096" and "length C = length (cells d)"
  shows "Read (ram_device 512) ((c2_start pBuffer mem handle d flags)
             \<lparr>buffer := B,
              m_pBufferedObject := d\<lparr>cells := C, pos := 8\<rparr>,
              m_Point := 0, m_BufferLoc := 0, m_DataSize := 8, m_IsDirty := False,
              calls := cs\<rparr>) pDst dst 10000 =
           Some (Inr (10000, (c2_start pBuffer mem handle d flags)
             \<lparr>buffer := store B 0 (take (nat (K * 512)) (drop 8192 C)),
              m_pBufferedObject := d\<lparr>cells := C, pos := 16 + K\<rparr>,
              m_Point := 1808, m_BufferLoc := 16, m_DataSize := K, m_IsDirty := False,
              calls := cs @ [ReadCall (pDst + 4096) 8, SeekCall 16, ReadCall pBuffer 8]\<rparr>,
             store (store (store dst 0 B) 4096 (take 4096 (drop 4096 C))) 8192
               (take 1808 (store B 0 (take (nat (K * 512)) (drop 8192 C))))))"
proof -
  have K: "4 \<le> K" "K \<le> 8" "16 + K \<le> ram_capacity 512 d"
    using assms(2) by (simp_all add: assms(5))
  note f = assms(5) [symmetric]
  have L: "10240 \<le> length (cells d)"
    using assms(2) by (simp add: ram_capacity_def)
  show ?thesis
    using assms(1-4,6-7) K L
    apply (simp add: Read_def Read_available_def c2_start_def RemainingReadAmount_def
        CopyOut_def memcpy_ok_def Let_def IsAligned_def Flush_clean)
    apply (simp add: Read_direct_def HighestMultiple_def obj_Read_def ram_Read_def Let_def)
    apply (simp add: Read_rest_def Flush_clean Fill_ram f Read_available_def RemainingReadAmount_def)
    apply (simp add: CopyOut_def memcpy_ok_def address_def)
    done
qed

lemma device_after_write_flush:
  assumes "length src = 10000" and "10240 \<le> length cs" and "2048 \<le> k" and "k \<le> 4096"
  shows "take 10000
           (store (store (store cs 0 (take 4096 src)) 4096 (take 4096 (drop 4096 src))) 8192
              (take k (store (store (take 4096 src) 0 X) 0 (drop 8192 src)))) = src"
proof (rule nth_equalityI)
  show "length (take 10000
           (store (store (store cs 0 (take 4096 src)) 4096 (take 4096 (drop 4096 src))) 8192
              (take k (store (store (take 4096 src) 0 X) 0 (drop 8192 src))))) = length src"
    using assms by simp
next
  fix i
  assume "i < length (take 10000
           (store (store (store cs 0 (take 4096 src)) 4096 (take 4096 (drop 4096 src))) 8192
              (take k (store (store (take 4096 src) 0 X) 0 (drop 8192 src)))))"
  then have i: "i < 10000"
    by simp
  show "take 10000
           (store (store (store cs 0 (take 4096 src)) 4096 (take 4096 (drop 4096 src))) 8192
              (take k (store (store (take 4096 src) 0 X) 0 (drop 8192 src)))) ! i = src ! i"
    using assms i by (auto simp add: nth_store)
qed

lemma client_after_read:
  assumes "10000 \<le> length dst" and "10240 \<le> length C" and "2048 \<le> k"
  shows "store (store (store dst 0 (take 4096 C)) 4096 (take 4096 (drop 4096 C))) 8192
           (take 1808 (store (take 4096 C) 0 (take k (drop 8192 C))))
         = take 10000 C @ drop 10000 dst"
proof (rule nth_equalityI)
  show "length (store (store (store dst 0 (take 4096 C)) 4096 (take 4096 (drop 4096 C))) 8192
           (take 1808 (store (take 4096 C) 0 (take k (drop 8192 C)))))
        = length (take 10000 C @ drop 10000 dst)"
    using assms by simp
next
  fix i
  assume "i < length (store (store (store dst 0 (take 4096 C)) 4096 (take 4096 (drop 4096 C))) 8192
           (take 1808 (store (take 4096 C) 0 (take k (drop 8192 C)))))"
  then have i: "i < length dst"
    by simp
  show "store (store (store dst 0 (take 4096 C)) 4096 (take 4096 (drop 4096 C))) 8192
           (take 1808 (store (take 4096 C) 0 (take k (drop 8192 C)))) ! i
        = (take 10000 C @ drop 10000 dst) ! i"
    using assms i by (auto simp add: nth_store nth_append)
qed

text \<open>
  C2. A proxy constructed with buffer size 4096, block size 512, sector alignment 512 and
  buffer alignment 1, with neither \<^verbatim>\<open>CF_NO_DIRECT_IO\<close> nor \<^verbatim>\<open>CF_NO_FILLS\<close> among its
  flags, over a fault-free device of at least 10000 bytes (20 blocks): \<^verbatim>\<open>Write\<close> of
  10000 bytes \<open>src\<close> at location 0 returns 10000, \<^verbatim>\<open>Seek\<close> to 0 returns 0, and \<^verbatim>\<open>Read\<close>
  of 10000 bytes returns 10000 and leaves \<open>src\<close> in the first 10000 bytes of the client's
  memory \<open>dst\<close>, the rest of \<open>dst\<close> as it was. This holds for every content of the
  buffer and of the device before, every position of the device, and all addresses.
\<close>

theorem write_seek_read_10000:
  assumes "flags AND CF_NO_DIRECT_IO = 0" and "flags AND CF_NO_FILLS = 0"
    and "length mem = 4096" and "length src = 10000" and "10000 \<le> length dst"
    and "10000 \<le> 512 * ram_capacity 512 d"
  shows "\<exists>w0 w1 w2 w3.
           BufferedProxy_ctor pBuffer mem 4096 handle d flags 512 512 1 = Inr w0
           \<and> Write (ram_device 512) w0 pSrc src 10000 = Some (Inr (10000, w1))
           \<and> Seek (ram_device 512) w1 0 = Inr (0, w2)
           \<and> Read (ram_device 512) w2 pDst dst 10000
               = Some (Inr (10000, w3, src @ drop 10000 dst))"
proof -
  have cap: "20 \<le> ram_capacity 512 d"
    using assms(6) by arith
  have len: "10240 \<le> length (cells d)"
    using cap by (simp add: ram_capacity_def)
  define K where "K = max 0 (min 8 (ram_capacity 512 d - 16))"
  have K: "2048 \<le> nat (K * 512)" "nat (K * 512) \<le> 4096"
    using cap by (auto simp add: K_def min_def)
  define C2 where "C2 = store (store (cells d) 0 (take 4096 src)) 4096 (take 4096 (drop 4096 src))"
  define B1 where "B1 = store (store (take 4096 src) 0 (take (nat (K * 512)) (drop 8192 C2))) 0
                          (drop 8192 src)"
  define C3 where "C3 = store C2 8192 (take (nat (K * 512)) B1)"
  have lB1: "length B1 = 4096"
    using assms(4) by (simp add: B1_def)
  have lC2: "length C2 = length (cells d)"
    by (simp add: C2_def)
  have lC3: "length C3 = length (cells d)"
    by (simp add: C3_def C2_def)
  have lB2: "length (take 4096 C3) = 4096"
    using len lC3 by simp
  have C3: "take 10000 C3 = src"
    unfolding C3_def B1_def C2_def
    by (rule device_after_write_flush [OF assms(4) len K])
  have out: "store (store (store dst 0 (take 4096 C3)) 4096 (take 4096 (drop 4096 C3))) 8192
               (take 1808 (store (take 4096 C3) 0 (take (nat (K * 512)) (drop 8192 C3))))
             = src @ drop 10000 dst"
    using client_after_read [of dst C3 "nat (K * 512)"] assms(5) len lC3 K(1) C3 by simp
  note w = c2_Write [where pBuffer = pBuffer and handle = handle and pSrc = pSrc,
      OF assms(3) assms(4) cap assms(1) assms(2) K_def C2_def, folded B1_def]
  note s = c2_Seek [where pBuffer = pBuffer and mem = mem and handle = handle,
      OF cap assms(2) K_def lB1 lC2, folded C3_def]
  note r = c2_Read [where pBuffer = pBuffer and mem = mem and handle = handle and pDst = pDst,
      OF assms(5) cap assms(1) assms(2) K_def lB2 lC3, unfolded out]
  from ctor_c2 w s r show ?thesis
    by blast
qed

theorem write_seek_read_10000_witness:
  "(0 :: uint) AND CF_NO_DIRECT_IO = 0 \<and> (0 :: uint) AND CF_NO_FILLS = 0
   \<and> length (replicate 4096 (0 :: byte)) = 4096
   \<and> length (replicate 10000 (7 :: byte)) = 10000
   \<and> 10000 \<le> length (replicate 10000 (0 :: byte))
   \<and> 10000 \<le> 512 * ram_capacity 512 \<lparr>cells = replicate 10240 0, pos = 0\<rparr>
   \<and> (\<exists>w0 w1 w2 w3.
           BufferedProxy_ctor 0x1000 (replicate 4096 0) 4096 0 \<lparr>cells = replicate 10240 0, pos = 0\<rparr>
             0 512 512 1 = Inr w0
           \<and> Write (ram_device 512) w0 0x2000 (replicate 10000 7) 10000 = Some (Inr (10000, w1))
           \<and> Seek (ram_device 512) w1 0 = Inr (0, w2)
           \<and> Read (ram_device 512) w2 0x3000 (replicate 10000 0) 10000
               = Some (Inr (10000, w3, replicate 10000 7)))"
proof -
  have h1: "(0 :: uint) AND CF_NO_DIRECT_IO = 0" and h2: "(0 :: uint) AND CF_NO_FILLS = 0"
    by simp_all
  have h3: "length (replicate 4096 (0 :: byte)) = 4096"
    and h4: "length (replicate 10000 (7 :: byte)) = 10000"
    and h5: "10000 \<le> length (replicate 10000 (0 :: byte))"
    by simp_all
  have h6: "10000 \<le> 512 * ram_capacity 512 \<lparr>cells = replicate 10240 0, pos = 0\<rparr>"
    by (simp add: ram_capacity_def)
  have e: "replicate 10000 (7 :: byte) @ drop 10000 (replicate 10000 (0 :: byte)) = replicate 10000 7"
    by simp
  from write_seek_read_10000 [where pBuffer = "0x1000" and handle = 0 and pSrc = "0x2000"
      and pDst = "0x3000", OF h1 h2 h3 h4 h5 h6, unfolded e] h1 h2 h3 h4 h5 h6
  show ?thesis
    by blast
qed

end
